theory Spec2Isabelle
  imports Complex_Main
begin

section \<open>Values, errors and the outside world\<close>

text \<open>
  The ingestion and retrieval core of SN-Sifu: \<^verbatim>\<open>app/core/embedding_manager.py\<close>,
  \<^verbatim>\<open>app/core/article_processor.py\<close> and the part of
  \<^verbatim>\<open>app/core/cosmos_db_manager.py\<close> they call.

  Python exceptions are values of \<open>error\<close>; a function that may raise returns
  \<open>error + 'a\<close> with \<open>Inl\<close> for the exception. Floating-point numbers are read as
  real numbers, with one extra value for numpy's \<^verbatim>\<open>nan\<close>. The errors are named as
  Python and the libraries name them: \<^verbatim>\<open>np.dot\<close> raises a \<^verbatim>\<open>ValueError\<close> for shapes
  that do not agree, tenacity a \<^verbatim>\<open>RetryError\<close> that holds the last attempt, the
  database client a \<^verbatim>\<open>CosmosHttpResponseError\<close>; \<open>ApiError\<close> stands for whatever the
  embedding provider's client raises. \<open>NanSortKey\<close> is no exception of Python: it marks
  the one case in which the model gives no result, a ranking with a key that is
  \<^verbatim>\<open>nan\<close>.
\<close>

datatype error =
    KeyError string
  | ValueError string
  | TypeError
  | IndexError
  | ApiError string
  | RetryError error
  | CosmosHttpResponseError
  | NanSortKey

datatype npfloat = Finite real | NaN

section \<open>EmbeddingManager: similarity\<close>

definition np_dot :: "real list \<Rightarrow> real list \<Rightarrow> error + real" where
  \<comment> \<open>\<^verbatim>\<open>np.dot\<close> of two one-dimensional arrays: the shapes must agree.\<close>
  "np_dot vec1 vec2 =
     (if length vec1 \<noteq> length vec2 then Inl (ValueError ''shapes not aligned'')
      else Inr (sum_list (map2 (*) vec1 vec2)))"

definition np_linalg_norm :: "real list \<Rightarrow> real" where
  "np_linalg_norm vec = sqrt (sum_list (map (\<lambda>x. x * x) vec))"

definition cosine_similarity :: "real list \<Rightarrow> real list \<Rightarrow> error + npfloat" where
  \<comment> \<open>A zero denominator comes with a zero numerator; numpy's \<^verbatim>\<open>0.0 / 0.0\<close> is
      \<^verbatim>\<open>nan\<close> and raises nothing.\<close>
  "cosine_similarity embedding1 embedding2 =
     (case np_dot embedding1 embedding2 of
        Inl e \<Rightarrow> Inl e
      | Inr d \<Rightarrow>
          (let n = np_linalg_norm embedding1 * np_linalg_norm embedding2
           in Inr (if n = 0 then NaN else Finite (d / n))))"







section \<open>Documents, the container and the world\<close>

text \<open>
  A stored document is a dictionary from field names to values; a value is a string or
  a vector of numbers (the embedding). A raw record is a row of a data frame, read here
  as a dictionary of strings.

  The container of the database, the embedding provider and the clock are outside the
  program. The \<open>world\<close> holds the documents of the container and the trace of every
  call made so far; the \<open>env\<close> says how the outside answers: what the provider returns
  to its n-th request, whether the n-th database request fails, what the n-th reading of
  the clock shows. \<^verbatim>\<open>str(float(v) + 0.1)\<close> and the printing of a vector are
  floating-point operations of the language and are taken from the \<open>env\<close> as well.
  Waiting (the backoff of the retry) takes time and changes nothing else; it is left out.
\<close>

datatype pyval = Str string | Vec "real list"

type_synonym dict = "string \<rightharpoonup> pyval"

type_synonym row = "string \<rightharpoonup> string"

datatype db_op = ReadItem string | UpsertItem dict | QueryItems string

record world =
  container :: "dict list"
  db_calls :: "db_op list"
  api_calls :: "string list list"
  clock_reads :: nat

record env =
  embeddings_create :: "nat \<Rightarrow> string list \<Rightarrow> error + real list list"
  cosmos_fault :: "nat \<Rightarrow> bool"
  isoformat_now :: "nat \<Rightarrow> string"
  float_plus_tenth :: "string \<Rightarrow> error + string"
  repr_vec :: "real list \<Rightarrow> string"

type_synonym 'a io = "world \<Rightarrow> (error + 'a) \<times> world"

definition ret :: "'a \<Rightarrow> 'a io" where
  "ret x w = (Inr x, w)"

definition raise :: "error \<Rightarrow> 'a io" where
  "raise e w = (Inl e, w)"

definition io_bind :: "'a io \<Rightarrow> ('a \<Rightarrow> 'b io) \<Rightarrow> 'b io" where
  \<comment> \<open>Sequencing: an exception skips the rest, the world keeps what was done.\<close>
  "io_bind m f w = (case m w of (Inl e, w') \<Rightarrow> (Inl e, w') | (Inr x, w') \<Rightarrow> f x w')"

definition lift :: "error + 'a \<Rightarrow> 'a io" where
  "lift r w = (r, w)"

definition subscript :: "(string \<rightharpoonup> 'v) \<Rightarrow> string \<Rightarrow> 'v io" where
  \<comment> \<open>\<^verbatim>\<open>d[k]\<close>\<close>
  "subscript d k = (case d k of None \<Rightarrow> raise (KeyError k) | Some v \<Rightarrow> ret v)"

definition dict_get :: "dict \<Rightarrow> string \<Rightarrow> pyval \<Rightarrow> pyval" where
  \<comment> \<open>\<^verbatim>\<open>d.get(k, default)\<close>\<close>
  "dict_get d k dflt = (case d k of None \<Rightarrow> dflt | Some v \<Rightarrow> v)"

definition as_dict :: "row \<Rightarrow> dict" where
  "as_dict r = (\<lambda>k. map_option Str (r k))"

definition format_value :: "env \<Rightarrow> pyval \<Rightarrow> string" where
  \<comment> \<open>A value inside an f-string.\<close>
  "format_value env v = (case v of Str s \<Rightarrow> s | Vec xs \<Rightarrow> repr_vec env xs)"

definition now :: "env \<Rightarrow> string io" where
  \<comment> \<open>\<^verbatim>\<open>datetime.now().isoformat()\<close>\<close>
  "now env w = (Inr (isoformat_now env (clock_reads w)), w\<lparr>clock_reads := Suc (clock_reads w)\<rparr>)"

section \<open>CosmosDBManager\<close>

definition has_id :: "string \<Rightarrow> dict \<Rightarrow> bool" where
  "has_id item_id d = (d ''id'' = Some (Str item_id))"

fun replace_item :: "string \<Rightarrow> dict \<Rightarrow> dict list \<Rightarrow> dict list" where
  \<comment> \<open>What the service does on an upsert: the document with this id is replaced, or
      the new one is added.\<close>
  "replace_item item_id item [] = [item]"
| "replace_item item_id item (d # ds) =
     (if has_id item_id d then item # ds else d # replace_item item_id item ds)"

definition db_request :: "env \<Rightarrow> db_op \<Rightarrow> unit io" where
  \<comment> \<open>Every request is recorded; the service may answer it with an error.\<close>
  "db_request env op w =
     (let n = length (db_calls w); w' = w\<lparr>db_calls := db_calls w @ [op]\<rparr>
      in if cosmos_fault env n then (Inl CosmosHttpResponseError, w') else (Inr (), w'))"

definition get_item :: "env \<Rightarrow> string \<Rightarrow> dict option io" where
  "get_item env item_id =
     io_bind (db_request env (ReadItem item_id)) (\<lambda>_ w.
       (Inr (find (has_id item_id) (container w)), w))"

definition upsert_item :: "env \<Rightarrow> dict \<Rightarrow> dict io" where
  \<comment> \<open>The service refuses a document whose id is not a string.\<close>
  "upsert_item env item =
     io_bind (db_request env (UpsertItem item)) (\<lambda>_ w.
       (case item ''id'' of
          Some (Str item_id) \<Rightarrow>
            (Inr item, w\<lparr>container := replace_item item_id item (container w)\<rparr>)
        | _ \<Rightarrow> (Inl CosmosHttpResponseError, w)))"

definition get_items_by_type :: "env \<Rightarrow> string \<Rightarrow> dict list io" where
  \<comment> \<open>\<^verbatim>\<open>SELECT * FROM c WHERE c.type = @type\<close>\<close>
  "get_items_by_type env item_type =
     io_bind (db_request env (QueryItems item_type)) (\<lambda>_ w.
       (Inr (filter (\<lambda>d. d ''type'' = Some (Str item_type)) (container w)), w))"

section \<open>EmbeddingManager: requests to the provider\<close>

definition replace_newlines :: "string \<Rightarrow> string" where
  \<comment> \<open>\<^verbatim>\<open>text.replace("\n", " ")\<close>\<close>
  "replace_newlines text = map (\<lambda>c. if c = CHR 0x0A then CHR '' '' else c) text"

definition embeddings_request :: "env \<Rightarrow> string list \<Rightarrow> real list list io" where
  \<comment> \<open>\<^verbatim>\<open>client.embeddings.create(input=..., model=...)\<close>, read down to the list of
      vectors of the response.\<close>
  "embeddings_request env inp w =
     (embeddings_create env (length (api_calls w)) inp, w\<lparr>api_calls := api_calls w @ [inp]\<rparr>)"

definition attempt_result :: "env \<Rightarrow> nat \<Rightarrow> string \<Rightarrow> error + real list" where
  \<comment> \<open>What one attempt of \<^verbatim>\<open>get_embedding\<close> comes to when it is request number
      \<open>n\<close> to the provider.\<close>
  "attempt_result env n text =
     (case embeddings_create env n [replace_newlines text] of
        Inl e \<Rightarrow> Inl e
      | Inr [] \<Rightarrow> Inl IndexError
      | Inr (embedding # _) \<Rightarrow> Inr embedding)"

definition get_embedding_body :: "env \<Rightarrow> string \<Rightarrow> real list io" where
  \<comment> \<open>The body of \<^verbatim>\<open>get_embedding\<close>, one attempt. \<^verbatim>\<open>response.data[0]\<close> raises
      on an empty response.\<close>
  "get_embedding_body env text =
     io_bind (embeddings_request env [replace_newlines text]) (\<lambda>data.
       case data of [] \<Rightarrow> raise IndexError | embedding # _ \<Rightarrow> ret embedding)"

function retrying :: "nat \<Rightarrow> nat \<Rightarrow> 'a io \<Rightarrow> 'a io" where
  \<comment> \<open>tenacity's \<^verbatim>\<open>@retry(stop=stop_after_attempt(n))\<close> with its defaults: every
      exception is retried; when the attempt that failed has number \<open>n\<close> or more, a
      \<^verbatim>\<open>RetryError\<close> holding that last attempt is raised.\<close>
  "retrying max_attempt_number attempt_number fn w =
     (case fn w of
        (Inr x, w') \<Rightarrow> (Inr x, w')
      | (Inl e, w') \<Rightarrow>
          (if max_attempt_number \<le> attempt_number then (Inl (RetryError e), w')
           else retrying max_attempt_number (Suc attempt_number) fn w'))"
  by pat_completeness auto
termination
  by (relation "measure (\<lambda>(m, a, fn, w). m - a)") auto

declare retrying.simps [simp del]

definition get_embedding :: "env \<Rightarrow> string \<Rightarrow> real list io" where
  "get_embedding env text = retrying 5 1 (get_embedding_body env text)"

definition get_embeddings :: "env \<Rightarrow> string list \<Rightarrow> real list list io" where
  \<comment> \<open>No retry here. The log line reads \<^verbatim>\<open>embeddings[0]\<close>, which raises on an
      empty response.\<close>
  "get_embeddings env texts =
     io_bind (embeddings_request env (map replace_newlines texts)) (\<lambda>embeddings.
       case embeddings of [] \<Rightarrow> raise IndexError | _ # _ \<Rightarrow> ret embeddings)"

definition py_range :: "nat \<Rightarrow> int \<Rightarrow> error + nat list" where
  \<comment> \<open>\<^verbatim>\<open>range(0, stop, step)\<close>\<close>
  "py_range stop step =
     (if step = 0 then Inl (ValueError ''range() arg 3 must not be zero'')
      else if step < 0 then Inr []
      else Inr (map (\<lambda>j. j * nat step) [0..<(stop + nat step - 1) div nat step]))"

fun embedding_batches :: "env \<Rightarrow> string list \<Rightarrow> nat \<Rightarrow> nat list \<Rightarrow> real list list \<Rightarrow> real list list io"
  where
  \<comment> \<open>The loop of \<^verbatim>\<open>get_embedding_batch\<close> over the start indices.\<close>
  "embedding_batches env texts batch_size [] all_embeddings = ret all_embeddings"
| "embedding_batches env texts batch_size (i # is) all_embeddings =
     io_bind (get_embeddings env (take batch_size (drop i texts))) (\<lambda>batch_embeddings.
       embedding_batches env texts batch_size is (all_embeddings @ batch_embeddings))"

definition get_embedding_batch :: "env \<Rightarrow> string list \<Rightarrow> int \<Rightarrow> real list list io" where
  "get_embedding_batch env texts batch_size =
     io_bind (lift (py_range (length texts) batch_size)) (\<lambda>starts.
       embedding_batches env texts (nat batch_size) starts [])"

section \<open>ArticleProcessor\<close>

definition version_increment :: "env \<Rightarrow> pyval \<Rightarrow> error + pyval" where
  \<comment> \<open>\<^verbatim>\<open>str(float(v) + 0.1)\<close>; \<^verbatim>\<open>float\<close> of a list is a type error.\<close>
  "version_increment env v =
     (case v of
        Str s \<Rightarrow> (case float_plus_tenth env s of Inl e \<Rightarrow> Inl e | Inr s' \<Rightarrow> Inr (Str s'))
      | Vec _ \<Rightarrow> Inl TypeError)"

definition merge_existing :: "env \<Rightarrow> dict option \<Rightarrow> row \<Rightarrow> error + dict" where
  \<comment> \<open>Lines 50 to 58 of \<^verbatim>\<open>article_processor.py\<close>: the article the rest of
      \<^verbatim>\<open>process_kb_article\<close> works on. A document that was found has an id, so it is
      not the empty dictionary and the test of line 50 succeeds. The fields of the raw
      article are written over those of the document found, then \<^verbatim>\<open>Version\<close> is
      read from the result.\<close>
  "merge_existing env existing_article article =
     (case existing_article of
        Some existing \<Rightarrow>
          (let merged = existing ++ as_dict article
           in case merged ''Version'' of
                None \<Rightarrow> Inl (KeyError ''Version'')
              | Some v \<Rightarrow>
                  (case version_increment env v of
                     Inl e \<Rightarrow> Inl e
                   | Inr v' \<Rightarrow> Inr (merged(''Version'' \<mapsto> v'))))
      | None \<Rightarrow> Inr (as_dict article))"

definition process_kb_article :: "env \<Rightarrow> row \<Rightarrow> dict io" where
  "process_kb_article env article =
     io_bind (subscript article ''KB Article #'') (\<lambda>item_id.
     io_bind (get_item env item_id) (\<lambda>existing_article.
     io_bind (lift (merge_existing env existing_article article)) (\<lambda>article.
     io_bind (subscript article ''Title'') (\<lambda>title.
     io_bind (subscript article ''Introduction'') (\<lambda>introduction.
     io_bind (subscript article ''Instructions'') (\<lambda>instructions.
     io_bind (get_embedding env
                (format_value env title @ '' '' @ format_value env introduction @ '' '' @
                 format_value env instructions)) (\<lambda>embedding.
     io_bind (subscript article ''KB Article #'') (\<lambda>article_id.
     io_bind (subscript article ''Version'') (\<lambda>version.
     io_bind (subscript article ''Category'') (\<lambda>category.
     io_bind (subscript article ''Keywords'') (\<lambda>keywords.
     io_bind (now env) (\<lambda>updated.
       (let processed_article =
          [''id'' \<mapsto> article_id,
           ''type'' \<mapsto> Str ''kb_article'',
           ''version'' \<mapsto> version,
           ''category'' \<mapsto> category,
           ''title'' \<mapsto> title,
           ''introduction'' \<mapsto> introduction,
           ''instructions'' \<mapsto> instructions,
           ''keywords'' \<mapsto> keywords,
           ''updated'' \<mapsto> Str updated,
           ''embedding'' \<mapsto> Vec embedding]
        in io_bind (upsert_item env processed_article) (\<lambda>_.
           ret processed_article))))))))))))))"

definition optional_fields :: "string list" where
  "optional_fields =
     [''summarize_ticket_explanation'', ''ticket_quality_explanation'',
      ''user_proficiency_level_explanation'', ''potential_impact_explanation'',
      ''resolution_appropriateness_explanation'', ''potential_root_cause_explanation'']"

definition add_optional_fields :: "row \<Rightarrow> dict \<Rightarrow> dict" where
  \<comment> \<open>Lines 125 to 127.\<close>
  "add_optional_fields ticket processed_ticket =
     foldl (\<lambda>p field. case ticket field of None \<Rightarrow> p | Some v \<Rightarrow> p(field \<mapsto> Str v))
       processed_ticket optional_fields"

definition process_ticket :: "env \<Rightarrow> row \<Rightarrow> dict io" where
  "process_ticket env ticket =
     io_bind (subscript ticket ''Description'') (\<lambda>description.
     io_bind (subscript ticket ''Close Notes'') (\<lambda>close_notes.
     io_bind (subscript ticket ''summarize_ticket'') (\<lambda>summary.
     io_bind (get_embedding env (description @ '' '' @ close_notes @ '' '' @ summary)) (\<lambda>embedding.
     io_bind (subscript ticket ''tracking_index'') (\<lambda>tracking_index.
     io_bind (now env) (\<lambda>stamp.
     io_bind (subscript ticket ''ticket_quality'') (\<lambda>ticket_quality.
     io_bind (subscript ticket ''user_proficiency_level'') (\<lambda>user_proficiency.
     io_bind (subscript ticket ''potential_impact'') (\<lambda>potential_impact.
     io_bind (subscript ticket ''resolution_appropriateness'') (\<lambda>resolution_appropriateness.
     io_bind (subscript ticket ''potential_root_cause'') (\<lambda>potential_root_cause.
     io_bind (now env) (\<lambda>created_at.
       (let processed_ticket = add_optional_fields ticket
          [''id'' \<mapsto> Str (tracking_index @ ''_'' @ stamp),
           ''type'' \<mapsto> Str ''ticket'',
           ''tracking_index'' \<mapsto> Str tracking_index,
           ''description'' \<mapsto> Str description,
           ''close_notes'' \<mapsto> Str close_notes,
           ''summary'' \<mapsto> Str summary,
           ''ticket_quality'' \<mapsto> Str ticket_quality,
           ''user_proficiency'' \<mapsto> Str user_proficiency,
           ''potential_impact'' \<mapsto> Str potential_impact,
           ''resolution_appropriateness'' \<mapsto> Str resolution_appropriateness,
           ''potential_root_cause'' \<mapsto> Str potential_root_cause,
           ''embedding'' \<mapsto> Vec embedding,
           ''created_at'' \<mapsto> Str created_at]
        in io_bind (upsert_item env processed_ticket) (\<lambda>_.
           ret processed_ticket))))))))))))))"

definition process_item :: "env \<Rightarrow> string \<Rightarrow> row \<Rightarrow> dict io" where
  \<comment> \<open>Lines 152 to 157: the body of the loop of \<^verbatim>\<open>process_dataframe\<close>.\<close>
  "process_item env item_type item =
     (if item_type = ''kb_article'' then process_kb_article env item
      else if item_type = ''ticket'' then process_ticket env item
      else raise (ValueError (''Invalid item type: '' @ item_type)))"

fun process_rows :: "env \<Rightarrow> string \<Rightarrow> row list \<Rightarrow> dict list \<Rightarrow> dict list io" where
  "process_rows env item_type [] processed_items = ret processed_items"
| "process_rows env item_type (item # rows) processed_items =
     io_bind (process_item env item_type item) (\<lambda>processed_item.
       process_rows env item_type rows (processed_items @ [processed_item]))"

definition process_dataframe :: "env \<Rightarrow> row list \<Rightarrow> string \<Rightarrow> dict list io" where
  "process_dataframe env df item_type = process_rows env item_type df []"

record stats =
  total_kb_articles :: nat
  total_tickets :: nat
  kb_article_categories :: "pyval \<rightharpoonup> nat"
  ticket_quality_distribution :: "pyval \<rightharpoonup> nat"
  user_proficiency_distribution :: "pyval \<rightharpoonup> nat"

definition count_key :: "(pyval \<rightharpoonup> nat) \<Rightarrow> pyval \<Rightarrow> error + (pyval \<rightharpoonup> nat)" where
  \<comment> \<open>\<^verbatim>\<open>table[key] = table.get(key, 0) + 1\<close>; a list is not hashable and cannot be a
      key.\<close>
  "count_key table key =
     (case key of
        Str _ \<Rightarrow> Inr (table(key \<mapsto> (case table key of None \<Rightarrow> 0 | Some c \<Rightarrow> c) + 1))
      | Vec _ \<Rightarrow> Inl TypeError)"

fun count_articles :: "dict list \<Rightarrow> stats \<Rightarrow> error + stats" where
  "count_articles [] st = Inr st"
| "count_articles (article # kb_articles) st =
     (let category = dict_get article ''category'' (Str ''Unknown'')
      in case count_key (kb_article_categories st) category of
           Inl e \<Rightarrow> Inl e
         | Inr t \<Rightarrow> count_articles kb_articles (st\<lparr>kb_article_categories := t\<rparr>))"

fun count_tickets :: "dict list \<Rightarrow> stats \<Rightarrow> error + stats" where
  "count_tickets [] st = Inr st"
| "count_tickets (ticket # tickets) st =
     (let quality = dict_get ticket ''ticket_quality'' (Str ''Unknown'');
          proficiency = dict_get ticket ''user_proficiency'' (Str ''Unknown'')
      in case count_key (ticket_quality_distribution st) quality of
           Inl e \<Rightarrow> Inl e
         | Inr tq \<Rightarrow>
             (case count_key (user_proficiency_distribution st) proficiency of
                Inl e \<Rightarrow> Inl e
              | Inr tp \<Rightarrow>
                  count_tickets tickets
                    (st\<lparr>ticket_quality_distribution := tq,
                        user_proficiency_distribution := tp\<rparr>)))"

definition get_item_statistics :: "env \<Rightarrow> stats io" where
  "get_item_statistics env =
     io_bind (get_items_by_type env ''kb_article'') (\<lambda>kb_articles.
     io_bind (get_items_by_type env ''ticket'') (\<lambda>tickets.
       (let st = \<lparr>total_kb_articles = length kb_articles,
                  total_tickets = length tickets,
                  kb_article_categories = Map.empty,
                  ticket_quality_distribution = Map.empty,
                  user_proficiency_distribution = Map.empty\<rparr>
        in io_bind (lift (count_articles kb_articles st)) (\<lambda>st.
           lift (count_tickets tickets st)))))"

definition count_of :: "(pyval \<rightharpoonup> nat) \<Rightarrow> pyval \<Rightarrow> nat" where
  \<comment> \<open>\<^verbatim>\<open>table.get(key, 0)\<close>\<close>
  "count_of table key = (case table key of None \<Rightarrow> 0 | Some c \<Rightarrow> c)"

section \<open>Example worlds\<close>

text \<open>
  Concrete inputs on which the theorems below are run: an empty container, and an outside
  world whose provider refuses its first requests and then answers every text with the
  same vector. The table for \<^verbatim>\<open>str(float(v) + 0.1)\<close> holds Python's results at the
  two strings used.
\<close>

definition empty_world :: world where
  "empty_world = \<lparr>container = [], db_calls = [], api_calls = [], clock_reads = 0\<rparr>"

definition flaky_env :: "nat \<Rightarrow> env" where
  "flaky_env failures =
     \<lparr>embeddings_create =
        (\<lambda>n inp. if n < failures then Inl (ApiError (''rate limit '' @ replicate n (CHR ''I'')))
                  else Inr (map (\<lambda>_. [3 / 5, 4 / 5]) inp)),
      cosmos_fault = (\<lambda>n. False),
      isoformat_now = (\<lambda>n. ''2024-07-14T10:00:00.00000'' @ replicate (Suc n) (CHR ''1'')),
      float_plus_tenth =
        (\<lambda>s. if s = ''1.0'' then Inr ''1.1'' else if s = ''5.0'' then Inr ''5.1''
              else Inl (ValueError ''could not convert string to float'')),
      repr_vec = (\<lambda>v. ''[...]'')\<rparr>"

definition example_ticket :: "string \<Rightarrow> row" where
  "example_ticket tracking_index =
     [''tracking_index'' \<mapsto> tracking_index,
      ''Description'' \<mapsto> ''User unable to log in'',
      ''Close Notes'' \<mapsto> ''Guided user through password reset'',
      ''summarize_ticket'' \<mapsto> ''Password reset assistance'',
      ''ticket_quality'' \<mapsto> ''Good'',
      ''user_proficiency_level'' \<mapsto> ''Beginner'',
      ''potential_impact'' \<mapsto> ''Low'',
      ''resolution_appropriateness'' \<mapsto> ''Appropriate'',
      ''potential_root_cause'' \<mapsto> ''Forgotten password'']"

definition example_article :: "string \<Rightarrow> row" where
  "example_article version =
     [''KB Article #'' \<mapsto> ''KB001'',
      ''Version'' \<mapsto> version,
      ''Category'' \<mapsto> ''Troubleshooting'',
      ''Title'' \<mapsto> ''How to reset your password'',
      ''Introduction'' \<mapsto> ''Resetting your password.'',
      ''Instructions'' \<mapsto> ''1. Go to the login page.'',
      ''Keywords'' \<mapsto> ''password, reset, login'']"

definition stored_article :: "string \<Rightarrow> dict" where
  "stored_article version =
     [''id'' \<mapsto> Str ''KB001'',
      ''type'' \<mapsto> Str ''kb_article'',
      ''version'' \<mapsto> Str version,
      ''category'' \<mapsto> Str ''Troubleshooting'',
      ''title'' \<mapsto> Str ''Password reset'',
      ''introduction'' \<mapsto> Str ''Old introduction.'',
      ''instructions'' \<mapsto> Str ''Old instructions.'',
      ''keywords'' \<mapsto> Str ''password'',
      ''updated'' \<mapsto> Str ''2024-07-01T09:00:00'',
      ''embedding'' \<mapsto> Vec [1, 0],
      ''_etag'' \<mapsto> Str ''00000000-0000'']"

definition stored_world :: "string \<Rightarrow> world" where
  "stored_world version =
     \<lparr>container = [stored_article version], db_calls = [], api_calls = [], clock_reads = 0\<rparr>"

definition stats_world :: world where
  "stats_world =
     \<lparr>container =
        [[''id'' \<mapsto> Str ''KB002'', ''type'' \<mapsto> Str ''kb_article'', ''title'' \<mapsto> Str ''VPN setup''],
         stored_article ''1.0'',
         [''id'' \<mapsto> Str ''T001_a'', ''type'' \<mapsto> Str ''ticket'', ''ticket_quality'' \<mapsto> Str ''Good''],
         [''id'' \<mapsto> Str ''T002_b'', ''type'' \<mapsto> Str ''ticket'',
          ''user_proficiency'' \<mapsto> Str ''Beginner'']],
      db_calls = [], api_calls = [], clock_reads = 0\<rparr>"

section \<open>Properties of the similarity engine\<close>
















text \<open>
  Claim C4. For two vectors of different lengths \<^verbatim>\<open>cosine_similarity\<close> returns no
  number: it fails, with the error \<^verbatim>\<open>np.dot\<close> raises for shapes that do not agree.
\<close>

theorem cosine_similarity_dimension_mismatch:
  "length a \<noteq> length b \<Longrightarrow> cosine_similarity a b = Inl (ValueError ''shapes not aligned'')"
  by (simp add: cosine_similarity_def np_dot_def)

theorem cosine_similarity_dimension_mismatch_witness:
  "length [1, 2, 3 :: real] \<noteq> length [1, 2, 3, 4 :: real] \<and>
   cosine_similarity [1, 2, 3] [1, 2, 3, 4] = Inl (ValueError ''shapes not aligned'')"
  using cosine_similarity_dimension_mismatch [of "[1, 2, 3]" "[1, 2, 3, 4]"] by simp

section \<open>Running a computation in the world\<close>


lemma io_bind_Inr:
  "io_bind m f w = (Inr y, w') \<longleftrightarrow> (\<exists>x w1. m w = (Inr x, w1) \<and> f x w1 = (Inr y, w'))"
  by (auto simp: io_bind_def split: prod.splits sum.splits)

lemma io_bind_step:
  "m w = (Inr x, w1) \<Longrightarrow> io_bind m f w = f x w1"
  by (simp add: io_bind_def)

lemma subscript_Inr: "subscript d k w = (Inr v, w') \<longleftrightarrow> d k = Some v \<and> w' = w"
  by (auto simp: subscript_def raise_def ret_def split: option.splits)

lemma ret_Inr: "ret x w = (Inr y, w') \<longleftrightarrow> y = x \<and> w' = w"
  by (auto simp: ret_def)

lemma lift_Inr: "lift r w = (Inr x, w') \<longleftrightarrow> r = Inr x \<and> w' = w"
  by (auto simp: lift_def)

lemma now_Inr:
  "now env w = (Inr t, w') \<longleftrightarrow>
     t = isoformat_now env (clock_reads w) \<and> w' = w\<lparr>clock_reads := Suc (clock_reads w)\<rparr>"
  by (auto simp: now_def)

lemma flaky_env_sel:
  "cosmos_fault (flaky_env f) n = False"
  "isoformat_now (flaky_env f) n = ''2024-07-14T10:00:00.00000'' @ replicate (Suc n) (CHR ''1'')"
  "float_plus_tenth (flaky_env f) ''1.0'' = Inr ''1.1''"
  by (simp_all add: flaky_env_def)

lemma upsert_item_Inr:
  "upsert_item env item w = (Inr r, w') \<Longrightarrow>
   r = item \<and> db_calls w' = db_calls w @ [UpsertItem item] \<and>
   api_calls w' = api_calls w \<and> clock_reads w' = clock_reads w \<and>
   (\<exists>i. item ''id'' = Some (Str i) \<and> container w' = replace_item i item (container w))"
  by (auto simp: upsert_item_def io_bind_Inr db_request_def Let_def
      split: if_splits option.splits pyval.splits)

lemma get_item_Inr:
  "get_item env item_id w = (Inr existing, w') \<Longrightarrow>
   existing = find (has_id item_id) (container w) \<and>
   w' = w\<lparr>db_calls := db_calls w @ [ReadItem item_id]\<rparr>"
  by (auto simp: get_item_def io_bind_Inr db_request_def Let_def split: if_splits)

lemma io_bind_Inl_iff:
  "io_bind m f w = (Inl e, w') \<longleftrightarrow>
     m w = (Inl e, w') \<or> (\<exists>x w1. m w = (Inr x, w1) \<and> f x w1 = (Inl e, w'))"
  by (auto simp: io_bind_def split: prod.splits sum.splits)

lemma subscript_Inl:
  "subscript d k w = (Inl e, w') \<longleftrightarrow> d k = None \<and> e = KeyError k \<and> w' = w"
  by (auto simp: subscript_def raise_def ret_def split: option.splits)

lemma ret_Inl: "ret x w = (Inl e, w') \<longleftrightarrow> False"
  by (simp add: ret_def)

lemma now_Inl: "now env w = (Inl e, w') \<longleftrightarrow> False"
  by (simp add: now_def)

lemma lift_Inl: "lift r w = (Inl e, w') \<longleftrightarrow> r = Inl e \<and> w' = w"
  by (auto simp: lift_def)

lemma upsert_item_Inl:
  "upsert_item env item w = (Inl e, w') \<Longrightarrow>
   container w' = container w \<and> db_calls w' = db_calls w @ [UpsertItem item]"
  by (auto simp: upsert_item_def io_bind_Inl_iff db_request_def Let_def
      split: if_splits option.splits pyval.splits)

lemma get_item_Inl:
  "get_item env item_id w = (Inl e, w') \<Longrightarrow>
   container w' = container w \<and> db_calls w' = db_calls w @ [ReadItem item_id]"
  by (auto simp: get_item_def io_bind_Inl_iff db_request_def Let_def split: if_splits)

lemma get_items_by_type_Inr:
  "get_items_by_type env item_type w = (Inr items, w') \<Longrightarrow>
   items = filter (\<lambda>d. d ''type'' = Some (Str item_type)) (container w) \<and>
   container w' = container w"
  by (auto simp: get_items_by_type_def io_bind_Inr db_request_def Let_def split: if_splits)

lemma find_replace_item_same:
  "has_id i item \<Longrightarrow> find (has_id i) (replace_item i item ds) = Some item"
  by (induction ds) auto

lemma find_replace_item_other:
  "i \<noteq> j \<Longrightarrow> has_id j item \<Longrightarrow>
   find (has_id i) (replace_item j item ds) = find (has_id i) ds"
  by (induction ds) (auto simp: has_id_def)

section \<open>Properties of the requests to the provider\<close>

lemma get_embedding_body_eq:
  "get_embedding_body env text w =
     (attempt_result env (length (api_calls w)) text,
      w\<lparr>api_calls := api_calls w @ [[replace_newlines text]]\<rparr>)"
  by (simp add: get_embedding_body_def io_bind_def embeddings_request_def attempt_result_def
      raise_def ret_def split: sum.splits list.splits)

lemma retrying_ok: "fn w = (Inr x, w') \<Longrightarrow> retrying m a fn w = (Inr x, w')"
  by (subst retrying.simps) simp

lemma retrying_again:
  "fn w = (Inl e, w') \<Longrightarrow> a < m \<Longrightarrow> retrying m a fn w = retrying m (Suc a) fn w'"
  by (subst retrying.simps) simp

lemma retrying_stop:
  "fn w = (Inl e, w') \<Longrightarrow> m \<le> a \<Longrightarrow> retrying m a fn w = (Inl (RetryError e), w')"
  by (subst retrying.simps) simp

lemma retrying_calls:
  "length (api_calls (snd (retrying m a (get_embedding_body env text) w)))
     \<le> length (api_calls w) + Suc (m - a)"
proof (induction m a "get_embedding_body env text" w rule: retrying.induct)
  case (1 m a w)
  let ?w' = "w\<lparr>api_calls := api_calls w @ [[replace_newlines text]]\<rparr>"
  show ?case
  proof (cases "attempt_result env (length (api_calls w)) text")
    case (Inr x)
    then show ?thesis
      by (simp add: retrying_ok[where fn = "get_embedding_body env text" and x = x and w' = ?w'] get_embedding_body_eq)
  next
    case (Inl e)
    then have b: "get_embedding_body env text w = (Inl e, ?w')"
      by (simp add: get_embedding_body_eq)
    show ?thesis
    proof (cases "m \<le> a")
      case True
      with b show ?thesis by (simp add: retrying_stop[where fn = "get_embedding_body env text", OF b])
    next
      case False
      with "1.hyps"[OF b[symmetric] refl False] b show ?thesis
        by (simp add: retrying_again[where fn = "get_embedding_body env text", OF b])
    qed
  qed
qed

lemma retrying_run:
  assumes "\<forall>k<j. \<exists>e. attempt_result env (length (api_calls w) + k) text = Inl e"
    and "a + j \<le> m"
  shows "\<exists>w'. length (api_calls w') = length (api_calls w) + j \<and>
     retrying m a (get_embedding_body env text) w
       = retrying m (a + j) (get_embedding_body env text) w'"
  using assms
proof (induction j arbitrary: a w)
  case 0
  then show ?case by auto
next
  case (Suc j)
  let ?w1 = "w\<lparr>api_calls := api_calls w @ [[replace_newlines text]]\<rparr>"
  from Suc.prems(1) obtain e where "attempt_result env (length (api_calls w) + 0) text = Inl e"
    by blast
  then have b: "get_embedding_body env text w = (Inl e, ?w1)"
    by (simp add: get_embedding_body_eq)
  from Suc.prems(2) have lt: "a < m" by simp
  have "\<forall>k<j. \<exists>e. attempt_result env (length (api_calls ?w1) + k) text = Inl e"
    using Suc.prems(1) by (auto dest: spec[where x="Suc k" for k])
  from Suc.IH[OF this, of "Suc a"] Suc.prems(2)
  obtain w' where "length (api_calls w') = length (api_calls ?w1) + j"
    "retrying m (Suc a) (get_embedding_body env text) ?w1
       = retrying m (Suc a + j) (get_embedding_body env text) w'"
    by auto
  then show ?case
    by (intro exI[of _ w']) (simp add: retrying_again[where fn = "get_embedding_body env text", OF b lt])
qed

lemma attempt_flaky:
  "attempt_result (flaky_env f) n text =
     (if n < f then Inl (ApiError (''rate limit '' @ replicate n (CHR ''I''))) else Inr [3 / 5, 4 / 5])"
  by (simp add: attempt_result_def flaky_env_def)

text \<open>
  Claim C3. \<^verbatim>\<open>get_embedding\<close> makes at most five requests to the provider. When the
  first four attempts fail and the fifth succeeds it returns the vector of the fifth;
  when five attempts in a row fail it fails with the \<^verbatim>\<open>RetryError\<close> that carries the
  error of the fifth.
\<close>

theorem get_embedding_five_attempts:
  "length (api_calls (snd (get_embedding env text w))) \<le> length (api_calls w) + 5 \<and>
   ((\<forall>k<4. \<exists>e. attempt_result env (length (api_calls w) + k) text = Inl e) \<and>
    attempt_result env (length (api_calls w) + 4) text = Inr embedding
      \<longrightarrow> fst (get_embedding env text w) = Inr embedding \<and>
          length (api_calls (snd (get_embedding env text w))) = length (api_calls w) + 5) \<and>
   ((\<forall>k<4. \<exists>e. attempt_result env (length (api_calls w) + k) text = Inl e) \<and>
    attempt_result env (length (api_calls w) + 4) text = Inl last_error
      \<longrightarrow> fst (get_embedding env text w) = Inl (RetryError last_error) \<and>
          length (api_calls (snd (get_embedding env text w))) = length (api_calls w) + 5)"
proof (intro conjI impI)
  show "length (api_calls (snd (get_embedding env text w))) \<le> length (api_calls w) + 5"
    using retrying_calls[of 5 1 env "text" w] by (simp add: get_embedding_def)
next
  assume h: "(\<forall>k<4. \<exists>e. attempt_result env (length (api_calls w) + k) text = Inl e) \<and>
    attempt_result env (length (api_calls w) + 4) text = Inr embedding"
  then obtain w' where w': "length (api_calls w') = length (api_calls w) + 4"
    "get_embedding env text w = retrying 5 5 (get_embedding_body env text) w'"
    using retrying_run[of 4 env w "text" 1 5] by (auto simp: get_embedding_def)
  let ?w2 = "w'\<lparr>api_calls := api_calls w' @ [[replace_newlines text]]\<rparr>"
  from h w'(1) have b: "get_embedding_body env text w' = (Inr embedding, ?w2)"
    by (simp add: get_embedding_body_eq)
  from retrying_ok[where fn = "get_embedding_body env text", OF b] w'
  have r: "get_embedding env text w = (Inr embedding, ?w2)" by simp
  show "fst (get_embedding env text w) = Inr embedding" using r by simp
  show "length (api_calls (snd (get_embedding env text w))) = length (api_calls w) + 5"
    using r w'(1) by simp
next
  assume h: "(\<forall>k<4. \<exists>e. attempt_result env (length (api_calls w) + k) text = Inl e) \<and>
    attempt_result env (length (api_calls w) + 4) text = Inl last_error"
  then obtain w' where w': "length (api_calls w') = length (api_calls w) + 4"
    "get_embedding env text w = retrying 5 5 (get_embedding_body env text) w'"
    using retrying_run[of 4 env w "text" 1 5] by (auto simp: get_embedding_def)
  let ?w2 = "w'\<lparr>api_calls := api_calls w' @ [[replace_newlines text]]\<rparr>"
  from h w'(1) have b: "get_embedding_body env text w' = (Inl last_error, ?w2)"
    by (simp add: get_embedding_body_eq)
  from retrying_stop[where fn = "get_embedding_body env text", OF b] w'
  have r: "get_embedding env text w = (Inl (RetryError last_error), ?w2)" by simp
  show "fst (get_embedding env text w) = Inl (RetryError last_error)" using r by simp
  show "length (api_calls (snd (get_embedding env text w))) = length (api_calls w) + 5"
    using r w'(1) by simp
qed

theorem get_embedding_five_attempts_witness:
  "fst (get_embedding (flaky_env 4) ''reset password'' empty_world) = Inr [3 / 5, 4 / 5] \<and>
   length (api_calls (snd (get_embedding (flaky_env 4) ''reset password'' empty_world))) = 5 \<and>
   fst (get_embedding (flaky_env 5) ''reset password'' empty_world)
     = Inl (RetryError (ApiError ''rate limit IIII'')) \<and>
   length (api_calls (snd (get_embedding (flaky_env 5) ''reset password'' empty_world))) = 5"
proof -
  have l: "length (api_calls empty_world) = 0" by (simp add: empty_world_def)
  from get_embedding_five_attempts
    [of "flaky_env 4" "''reset password''" empty_world "[3 / 5, 4 / 5]"]
  have a: "fst (get_embedding (flaky_env 4) ''reset password'' empty_world) = Inr [3 / 5, 4 / 5] \<and>
   length (api_calls (snd (get_embedding (flaky_env 4) ''reset password'' empty_world))) = 5"
    by (simp add: attempt_flaky l)
  from get_embedding_five_attempts
    [of "flaky_env 5" "''reset password''" empty_world _ "ApiError ''rate limit IIII''"]
  have b: "fst (get_embedding (flaky_env 5) ''reset password'' empty_world)
     = Inl (RetryError (ApiError ''rate limit IIII'')) \<and>
   length (api_calls (snd (get_embedding (flaky_env 5) ''reset password'' empty_world))) = 5"
    by (simp add: attempt_flaky l numeral_eq_Suc)
  from a b show ?thesis by simp
qed

lemma get_embedding_once:
  "get_embedding env text w =
     (case attempt_result env (length (api_calls w)) text of
        Inr embedding \<Rightarrow>
          (Inr embedding, w\<lparr>api_calls := api_calls w @ [[replace_newlines text]]\<rparr>)
      | Inl e \<Rightarrow>
          retrying 5 2 (get_embedding_body env text)
            (w\<lparr>api_calls := api_calls w @ [[replace_newlines text]]\<rparr>))"
  unfolding get_embedding_def
  by (subst retrying.simps) (simp add: get_embedding_body_eq numeral_2_eq_2 split: sum.splits)

lemma retrying_frame:
  "retrying m a (get_embedding_body env text) w = (r, w') \<Longrightarrow>
   container w' = container w \<and> db_calls w' = db_calls w \<and> clock_reads w' = clock_reads w"
proof (induction m a "get_embedding_body env text" w rule: retrying.induct)
  case (1 m a w)
  let ?w1 = "w\<lparr>api_calls := api_calls w @ [[replace_newlines text]]\<rparr>"
  show ?case
  proof (cases "attempt_result env (length (api_calls w)) text")
    case (Inr x)
    then have "get_embedding_body env text w = (Inr x, ?w1)" by (simp add: get_embedding_body_eq)
    from retrying_ok[where fn = "get_embedding_body env text", OF this, of m a] "1.prems"
    show ?thesis by auto
  next
    case (Inl e)
    then have b: "get_embedding_body env text w = (Inl e, ?w1)"
      by (simp add: get_embedding_body_eq)
    show ?thesis
    proof (cases "m \<le> a")
      case True
      from retrying_stop[where fn = "get_embedding_body env text", OF b True] "1.prems"
      show ?thesis by auto
    next
      case False
      then have "a < m" by simp
      from retrying_again[where fn = "get_embedding_body env text", OF b this] "1.prems"
      have "retrying m (Suc a) (get_embedding_body env text) ?w1 = (r, w')" by simp
      from "1.hyps"[OF b[symmetric] refl False this] show ?thesis by simp
    qed
  qed
qed

lemma get_embedding_frame:
  "get_embedding env text w = (r, w') \<Longrightarrow>
   container w' = container w \<and> db_calls w' = db_calls w \<and> clock_reads w' = clock_reads w"
  unfolding get_embedding_def by (rule retrying_frame)

text \<open>
  Claim C10. For an empty list of texts and a batch size above zero,
  \<^verbatim>\<open>get_embedding_batch\<close> returns the empty list and sends nothing to the provider:
  the world is unchanged.
\<close>

theorem get_embedding_batch_empty:
  "0 < batch_size \<Longrightarrow> get_embedding_batch env [] batch_size w = (Inr [], w)"
  by (simp add: get_embedding_batch_def py_range_def io_bind_def lift_def ret_def)

theorem get_embedding_batch_empty_witness:
  "(0::int) < 100 \<and> get_embedding_batch (flaky_env 0) [] 100 empty_world = (Inr [], empty_world)"
  using get_embedding_batch_empty [of 100 "flaky_env 0" empty_world] by simp

section \<open>Properties of the ingestion of tickets\<close>

lemma foldl_optional:
  "k \<notin> set fs \<Longrightarrow>
   foldl (\<lambda>p field. case ticket field of None \<Rightarrow> p | Some v \<Rightarrow> p(field \<mapsto> Str v)) p fs k
     = p k"
  by (induction fs arbitrary: p) (auto split: option.splits)

lemma add_optional_fields_other:
  "k \<notin> set optional_fields \<Longrightarrow> add_optional_fields ticket p k = p k"
  unfolding add_optional_fields_def by (rule foldl_optional)

lemma process_ticket_Inr:
  assumes "process_ticket env ticket w = (Inr p, w')"
  shows "\<exists>tracking_index.
     ticket ''tracking_index'' = Some tracking_index \<and>
     has_id (tracking_index @ ''_'' @ isoformat_now env (clock_reads w)) p \<and>
     container w' =
       replace_item (tracking_index @ ''_'' @ isoformat_now env (clock_reads w)) p (container w) \<and>
     db_calls w' = db_calls w @ [UpsertItem p] \<and>
     clock_reads w' = Suc (Suc (clock_reads w))"
  using assms unfolding process_ticket_def Let_def
  apply (clarsimp simp: io_bind_Inr subscript_Inr now_Inr ret_Inr)
  apply (drule get_embedding_frame)
  apply (drule upsert_item_Inr)
  apply (clarsimp simp: has_id_def add_optional_fields_other optional_fields_def)
  done

lemma process_ticket_succeeds:
  assumes "ticket ''Description'' = Some description"
    and "ticket ''Close Notes'' = Some close_notes"
    and "ticket ''summarize_ticket'' = Some summary"
    and "ticket ''tracking_index'' = Some tracking_index"
    and "ticket ''ticket_quality'' = Some ticket_quality"
    and "ticket ''user_proficiency_level'' = Some user_proficiency"
    and "ticket ''potential_impact'' = Some potential_impact"
    and "ticket ''resolution_appropriateness'' = Some resolution_appropriateness"
    and "ticket ''potential_root_cause'' = Some potential_root_cause"
    and "attempt_result env (length (api_calls w))
           (description @ '' '' @ close_notes @ '' '' @ summary) = Inr embedding"
    and "\<not> cosmos_fault env (length (db_calls w))"
  shows "\<exists>p w'. process_ticket env ticket w = (Inr p, w')"
  using assms
  by (simp add: process_ticket_def io_bind_def subscript_def ret_def now_def
      get_embedding_once upsert_item_def db_request_def Let_def
      add_optional_fields_other optional_fields_def)

lemma example_ticket_succeeds:
  "\<exists>p w'. process_ticket (flaky_env 0) (example_ticket idx) w = (Inr p, w')"
  by (rule process_ticket_succeeds[where embedding = "[3 / 5, 4 / 5]"])
     (simp_all add: example_ticket_def attempt_flaky flaky_env_sel)

lemma process_ticket_Inl:
  assumes "process_ticket env ticket w = (Inl e, w')"
  shows "container w' = container w \<and>
     (db_calls w' = db_calls w \<or> (\<exists>p. db_calls w' = db_calls w @ [UpsertItem p]))"
  using assms unfolding process_ticket_def Let_def
  by (auto simp: io_bind_Inl_iff subscript_Inr subscript_Inl now_Inr now_Inl ret_Inl
      dest!: get_embedding_frame upsert_item_Inl)

lemma example_ticket_fails:
  "\<exists>w'. process_ticket (flaky_env 0) ((example_ticket idx)(''ticket_quality'' := None)) w
      = (Inl (KeyError ''ticket_quality''), w') \<and> db_calls w' = db_calls w"
  by (simp add: process_ticket_def io_bind_def subscript_def ret_def raise_def now_def
      get_embedding_once attempt_flaky example_ticket_def)

text \<open>
  Claim C7. \<^verbatim>\<open>process_ticket\<close> reads nothing from the container: its one database
  call is the upsert of the new record, whose id is the tracking index, an underscore and
  the reading of the clock, and which is then found in the container under that id. Two
  tickets with the same tracking index, processed one after the other at clock readings
  that differ, get different ids, and both records are in the container afterwards.
  Whatever the outcome of a call, the only database call it can have made is that one
  upsert, and a call that fails leaves the container as it was.
\<close>

theorem process_ticket_fresh_id:
  "(process_ticket env ticket w = (Inr p, w') \<longrightarrow>
      (\<exists>tracking_index.
         ticket ''tracking_index'' = Some tracking_index \<and>
         p ''id'' = Some (Str (tracking_index @ ''_'' @ isoformat_now env (clock_reads w))) \<and>
         find (has_id (tracking_index @ ''_'' @ isoformat_now env (clock_reads w))) (container w')
           = Some p) \<and>
      db_calls w' = db_calls w @ [UpsertItem p]) \<and>
   (process_ticket env ticket1 w = (Inr p1, w1) \<and>
    process_ticket env ticket2 w1 = (Inr p2, w2) \<and>
    ticket1 ''tracking_index'' = ticket2 ''tracking_index'' \<and>
    isoformat_now env (clock_reads w) \<noteq> isoformat_now env (clock_reads w1)
      \<longrightarrow> p1 ''id'' \<noteq> p2 ''id'' \<and>
          (\<exists>id1 id2. p1 ''id'' = Some (Str id1) \<and> p2 ''id'' = Some (Str id2) \<and>
             find (has_id id1) (container w2) = Some p1 \<and>
             find (has_id id2) (container w2) = Some p2)) \<and>
   (process_ticket env ticket w = (outcome, w_end) \<longrightarrow>
      db_calls w_end = db_calls w \<or> (\<exists>q. db_calls w_end = db_calls w @ [UpsertItem q])) \<and>
   (process_ticket env ticket w = (Inl e, w_end) \<longrightarrow> container w_end = container w)"
proof (intro conjI impI)
  assume a: "process_ticket env ticket w = (Inr p, w')"
  from process_ticket_Inr[OF a] show "\<exists>tracking_index.
         ticket ''tracking_index'' = Some tracking_index \<and>
         p ''id'' = Some (Str (tracking_index @ ''_'' @ isoformat_now env (clock_reads w))) \<and>
         find (has_id (tracking_index @ ''_'' @ isoformat_now env (clock_reads w))) (container w')
           = Some p"
    by (auto simp: find_replace_item_same) (simp add: has_id_def)
  from process_ticket_Inr[OF a] show "db_calls w' = db_calls w @ [UpsertItem p]" by auto
next
  assume h: "process_ticket env ticket1 w = (Inr p1, w1) \<and>
    process_ticket env ticket2 w1 = (Inr p2, w2) \<and>
    ticket1 ''tracking_index'' = ticket2 ''tracking_index'' \<and>
    isoformat_now env (clock_reads w) \<noteq> isoformat_now env (clock_reads w1)"
  then have a1: "process_ticket env ticket1 w = (Inr p1, w1)"
    and a2: "process_ticket env ticket2 w1 = (Inr p2, w2)"
    and same: "ticket1 ''tracking_index'' = ticket2 ''tracking_index''"
    and stamps: "isoformat_now env (clock_reads w) \<noteq> isoformat_now env (clock_reads w1)"
    by simp_all
  from process_ticket_Inr[OF a1] obtain idx where
    i1: "ticket1 ''tracking_index'' = Some idx"
    and h1: "has_id (idx @ ''_'' @ isoformat_now env (clock_reads w)) p1"
    and c1: "container w1 = replace_item (idx @ ''_'' @ isoformat_now env (clock_reads w)) p1 (container w)"
    by blast
  from process_ticket_Inr[OF a2] same i1 have
    h2: "has_id (idx @ ''_'' @ isoformat_now env (clock_reads w1)) p2"
    and c2: "container w2 = replace_item (idx @ ''_'' @ isoformat_now env (clock_reads w1)) p2 (container w1)"
    by auto
  let ?id1 = "idx @ ''_'' @ isoformat_now env (clock_reads w)"
  let ?id2 = "idx @ ''_'' @ isoformat_now env (clock_reads w1)"
  have ne: "?id1 \<noteq> ?id2" using stamps by simp
  show "p1 ''id'' \<noteq> p2 ''id''" using h1 h2 ne by (simp add: has_id_def)
  have f1: "find (has_id ?id1) (container w2) = Some p1"
    unfolding c2 c1 using find_replace_item_other[OF ne h2] find_replace_item_same[OF h1] by simp
  have f2: "find (has_id ?id2) (container w2) = Some p2"
    unfolding c2 using find_replace_item_same[OF h2] by simp
  show "\<exists>id1 id2. p1 ''id'' = Some (Str id1) \<and> p2 ''id'' = Some (Str id2) \<and>
             find (has_id id1) (container w2) = Some p1 \<and>
             find (has_id id2) (container w2) = Some p2"
    using h1 h2 f1 f2 unfolding has_id_def by blast
next
  assume a: "process_ticket env ticket w = (outcome, w_end)"
  show "db_calls w_end = db_calls w \<or> (\<exists>q. db_calls w_end = db_calls w @ [UpsertItem q])"
  proof (cases outcome)
    case (Inl x)
    with a process_ticket_Inl[of env ticket w x w_end] show ?thesis by simp
  next
    case (Inr q)
    with a process_ticket_Inr[of env ticket w q w_end] show ?thesis by blast
  qed
next
  assume "process_ticket env ticket w = (Inl e, w_end)"
  then show "container w_end = container w" by (simp add: process_ticket_Inl)
qed

theorem process_ticket_fresh_id_witness:
  "\<exists>p1 w1 p2 w2.
     process_ticket (flaky_env 0) (example_ticket ''T001'') empty_world = (Inr p1, w1) \<and>
     process_ticket (flaky_env 0) (example_ticket ''T001'') w1 = (Inr p2, w2) \<and>
     example_ticket ''T001'' ''tracking_index'' = example_ticket ''T001'' ''tracking_index'' \<and>
     isoformat_now (flaky_env 0) (clock_reads empty_world)
       \<noteq> isoformat_now (flaky_env 0) (clock_reads w1) \<and>
     db_calls w1 = [UpsertItem p1] \<and>
     p1 ''id'' = Some (Str ''T001_2024-07-14T10:00:00.000001'') \<and>
     p2 ''id'' = Some (Str ''T001_2024-07-14T10:00:00.00000111'') \<and>
     find (has_id ''T001_2024-07-14T10:00:00.000001'') (container w2) = Some p1 \<and>
     find (has_id ''T001_2024-07-14T10:00:00.00000111'') (container w2) = Some p2 \<and>
     (\<exists>w3. process_ticket (flaky_env 0) ((example_ticket ''T001'')(''ticket_quality'' := None))
             w2 = (Inl (KeyError ''ticket_quality''), w3) \<and>
           db_calls w3 = db_calls w2 \<and> container w3 = container w2)"
proof -
  obtain p1 w1 where r1:
    "process_ticket (flaky_env 0) (example_ticket ''T001'') empty_world = (Inr p1, w1)"
    using example_ticket_succeeds by blast
  obtain p2 w2 where r2:
    "process_ticket (flaky_env 0) (example_ticket ''T001'') w1 = (Inr p2, w2)"
    using example_ticket_succeeds by blast
  from process_ticket_Inr[OF r1] have c1: "clock_reads w1 = 2"
    by (auto simp: empty_world_def)
  have c0: "clock_reads empty_world = 0" "db_calls empty_world = []"
    by (simp_all add: empty_world_def)
  have idx: "example_ticket ''T001'' ''tracking_index'' = Some ''T001''"
    by (simp add: example_ticket_def)
  have stamps: "isoformat_now (flaky_env 0) (clock_reads empty_world)
       \<noteq> isoformat_now (flaky_env 0) (clock_reads w1)"
    by (simp add: c0 c1 flaky_env_sel numeral_2_eq_2)
  note t = process_ticket_fresh_id
  from t[of "flaky_env 0" "example_ticket ''T001''" empty_world p1 w1] r1 idx c0
  have a: "p1 ''id'' = Some (Str ''T001_2024-07-14T10:00:00.000001'')"
    "db_calls w1 = [UpsertItem p1]"
    by (auto simp: flaky_env_sel)
  from t[of "flaky_env 0" "example_ticket ''T001''" w1 p2 w2] r2 idx c1
  have b: "p2 ''id'' = Some (Str ''T001_2024-07-14T10:00:00.00000111'')"
    by (auto simp: flaky_env_sel numeral_2_eq_2)
  from t[where env = "flaky_env 0" and w = empty_world and ?ticket1.0 = "example_ticket ''T001''"
      and ?p1.0 = p1 and ?w1.0 = w1 and ?ticket2.0 = "example_ticket ''T001''"
      and ?p2.0 = p2 and ?w2.0 = w2] r1 r2 stamps a b
  have c: "find (has_id ''T001_2024-07-14T10:00:00.000001'') (container w2) = Some p1 \<and>
     find (has_id ''T001_2024-07-14T10:00:00.00000111'') (container w2) = Some p2"
    by auto
  obtain w3 where r3:
    "process_ticket (flaky_env 0) ((example_ticket ''T001'')(''ticket_quality'' := None)) w2
       = (Inl (KeyError ''ticket_quality''), w3)"
    and d3: "db_calls w3 = db_calls w2"
    using example_ticket_fails by blast
  from t[where env = "flaky_env 0" and w = w2
      and ticket = "(example_ticket ''T001'')(''ticket_quality'' := None)"
      and e = "KeyError ''ticket_quality''" and w_end = w3] r3
  have c3: "container w3 = container w2" by blast
  from r1 r2 stamps a b c r3 d3 c3 show ?thesis by blast
qed

section \<open>Properties of the ingestion of articles\<close>

lemma merge_existing_id:
  "merge_existing env existing article = Inr a \<Longrightarrow> article ''KB Article #'' = Some i \<Longrightarrow>
   a ''KB Article #'' = Some (Str i)"
  by (auto simp: merge_existing_def as_dict_def Let_def map_add_def
      split: option.splits sum.splits)

lemma process_kb_article_Inr:
  assumes "process_kb_article env article w = (Inr p, w')"
  shows "\<exists>item_id a.
     article ''KB Article #'' = Some item_id \<and>
     merge_existing env (find (has_id item_id) (container w)) article = Inr a \<and>
     p ''version'' = a ''Version'' \<and> a ''Version'' \<noteq> None \<and>
     has_id item_id p \<and>
     dom p = {''id'', ''type'', ''version'', ''category'', ''title'', ''introduction'',
              ''instructions'', ''keywords'', ''updated'', ''embedding''} \<and>
     container w' = replace_item item_id p (container w) \<and>
     db_calls w' = db_calls w @ [ReadItem item_id, UpsertItem p]"
  using assms unfolding process_kb_article_def Let_def
  apply (clarsimp simp: io_bind_Inr subscript_Inr now_Inr ret_Inr lift_Inr)
  apply (drule get_item_Inr)
  apply (drule get_embedding_frame)
  apply (drule upsert_item_Inr)
  apply (frule merge_existing_id, assumption)
  apply (clarsimp simp: has_id_def)
  apply auto
  done

lemma example_article_succeeds:
  "\<exists>p w'. process_kb_article (flaky_env 0) ((example_article ''1.0'')(''Author'' \<mapsto> ''jdoe''))
     (stored_world ''5.0'') = (Inr p, w')"
  by (simp add: process_kb_article_def io_bind_def subscript_def ret_def raise_def now_def
      example_article_def get_embedding_once attempt_result_def upsert_item_def db_request_def
      get_item_def merge_existing_def version_increment_def lift_def as_dict_def
      stored_world_def stored_article_def has_id_def format_value_def map_add_def
      flaky_env_def Let_def)

lemma example_article_create_succeeds:
  "\<exists>p w'. process_kb_article (flaky_env 0) (example_article ''1.0'') empty_world = (Inr p, w')"
  by (simp add: process_kb_article_def io_bind_def subscript_def ret_def raise_def now_def
      example_article_def get_embedding_once attempt_result_def upsert_item_def db_request_def
      get_item_def merge_existing_def version_increment_def lift_def as_dict_def
      empty_world_def has_id_def format_value_def map_add_def
      flaky_env_def Let_def)

lemma example_article_update_succeeds:
  "\<exists>p w'. process_kb_article (flaky_env 0) (example_article ''1.0'') (stored_world ''5.0'')
     = (Inr p, w')"
  by (simp add: process_kb_article_def io_bind_def subscript_def ret_def raise_def now_def
      example_article_def get_embedding_once attempt_result_def upsert_item_def db_request_def
      get_item_def merge_existing_def version_increment_def lift_def as_dict_def
      stored_world_def stored_article_def has_id_def format_value_def map_add_def
      flaky_env_def Let_def)

lemma process_kb_article_Inl:
  assumes "process_kb_article env article w = (Inl e, w')"
  shows "container w' = container w"
  using assms unfolding process_kb_article_def Let_def
  by (auto simp: io_bind_Inl_iff subscript_Inr subscript_Inl now_Inr now_Inl ret_Inl
        lift_Inr lift_Inl
      dest!: get_embedding_frame upsert_item_Inl get_item_Inl get_item_Inr)

lemma example_article_fails:
  "\<exists>w'. process_kb_article (flaky_env 0) ((example_article ''1.0'')(''Keywords'' := None))
     (stored_world ''5.0'') = (Inl (KeyError ''Keywords''), w')"
  by (simp add: process_kb_article_def io_bind_def subscript_def ret_def raise_def now_def
      example_article_def get_embedding_once attempt_result_def upsert_item_def db_request_def
      get_item_def merge_existing_def version_increment_def lift_def as_dict_def
      stored_world_def stored_article_def has_id_def format_value_def map_add_def
      flaky_env_def Let_def)

text \<open>
  Claim C1. Where the version of \<^verbatim>\<open>process_kb_article\<close> comes from. When the id is
  found, lines 52 and 53 first write the fields of the raw article over the document
  found, and line 55 then reads \<^verbatim>\<open>Version\<close> from the result: the stored version is
  \<^verbatim>\<open>str(float(v) + 0.1)\<close> for the \<^verbatim>\<open>Version\<close> \<open>v\<close> of the raw article, and the
  \<^verbatim>\<open>version\<close> of the document found is not read. Only a raw article without a
  \<^verbatim>\<open>Version\<close> takes it from the document found, from a field named \<^verbatim>\<open>Version\<close>,
  which the records this program writes do not have. When the id is not found, the raw
  version is stored as it is.
\<close>

theorem process_kb_article_version:
  "(find (has_id item_id) (container w) = Some existing \<and>
    article ''KB Article #'' = Some item_id \<and> article ''Version'' = Some v \<and>
    process_kb_article env article w = (Inr p, w')
      \<longrightarrow> (\<exists>v'. float_plus_tenth env v = Inr v' \<and> p ''version'' = Some (Str v'))) \<and>
   (find (has_id item_id) (container w) = Some existing \<and>
    article ''KB Article #'' = Some item_id \<and> article ''Version'' = None \<and>
    process_kb_article env article w = (Inr p, w')
      \<longrightarrow> (\<exists>v0 v'. existing ''Version'' = Some v0 \<and> version_increment env v0 = Inr v' \<and>
             p ''version'' = Some v')) \<and>
   (find (has_id item_id) (container w) = None \<and>
    article ''KB Article #'' = Some item_id \<and>
    process_kb_article env article w = (Inr p, w')
      \<longrightarrow> (\<exists>v. article ''Version'' = Some v \<and> p ''version'' = Some (Str v)))"
proof (intro conjI impI)
  assume h: "find (has_id item_id) (container w) = Some existing \<and>
    article ''KB Article #'' = Some item_id \<and> article ''Version'' = Some v \<and>
    process_kb_article env article w = (Inr p, w')"
  then have r: "process_kb_article env article w = (Inr p, w')" by simp
  from process_kb_article_Inr[OF r] h obtain a where
    m: "merge_existing env (Some existing) article = Inr a" and pv: "p ''version'' = a ''Version''"
    by auto
  from m h show "\<exists>v'. float_plus_tenth env v = Inr v' \<and> p ''version'' = Some (Str v')"
    unfolding pv
    by (auto simp: merge_existing_def version_increment_def as_dict_def map_add_def Let_def
        split: sum.splits)
next
  assume h: "find (has_id item_id) (container w) = Some existing \<and>
    article ''KB Article #'' = Some item_id \<and> article ''Version'' = None \<and>
    process_kb_article env article w = (Inr p, w')"
  then have r: "process_kb_article env article w = (Inr p, w')" by simp
  from process_kb_article_Inr[OF r] h obtain a where
    m: "merge_existing env (Some existing) article = Inr a" and pv: "p ''version'' = a ''Version''"
    by auto
  from m h show "\<exists>v0 v'. existing ''Version'' = Some v0 \<and> version_increment env v0 = Inr v' \<and>
             p ''version'' = Some v'"
    unfolding pv
    by (auto simp: merge_existing_def as_dict_def map_add_def Let_def
        split: sum.splits option.splits)
next
  assume h: "find (has_id item_id) (container w) = None \<and>
    article ''KB Article #'' = Some item_id \<and>
    process_kb_article env article w = (Inr p, w')"
  then have r: "process_kb_article env article w = (Inr p, w')" by simp
  from process_kb_article_Inr[OF r] h obtain a where
    m: "merge_existing env None article = Inr a" and pv: "p ''version'' = a ''Version''"
    and "a ''Version'' \<noteq> None"
    by auto
  then obtain x where "p ''version'' = Some x" by auto
  with m pv show "\<exists>v. article ''Version'' = Some v \<and> p ''version'' = Some (Str v)"
    by (cases "article ''Version''") (auto simp: merge_existing_def as_dict_def)
qed

theorem process_kb_article_version_witness:
  "\<exists>p w' q w''.
     find (has_id ''KB001'') (container (stored_world ''5.0'')) = Some (stored_article ''5.0'') \<and>
     stored_article ''5.0'' ''version'' = Some (Str ''5.0'') \<and>
     example_article ''1.0'' ''KB Article #'' = Some ''KB001'' \<and>
     example_article ''1.0'' ''Version'' = Some ''1.0'' \<and>
     process_kb_article (flaky_env 0) (example_article ''1.0'') (stored_world ''5.0'')
       = (Inr p, w') \<and>
     p ''version'' = Some (Str ''1.1'') \<and>
     find (has_id ''KB001'') (container empty_world) = None \<and>
     process_kb_article (flaky_env 0) (example_article ''1.0'') empty_world = (Inr q, w'') \<and>
     q ''version'' = Some (Str ''1.0'')"
proof -
  obtain p w' where r:
    "process_kb_article (flaky_env 0) (example_article ''1.0'') (stored_world ''5.0'') = (Inr p, w')"
    using example_article_update_succeeds by blast
  obtain q w'' where r':
    "process_kb_article (flaky_env 0) (example_article ''1.0'') empty_world = (Inr q, w'')"
    using example_article_create_succeeds by blast
  have f: "find (has_id ''KB001'') (container (stored_world ''5.0'')) = Some (stored_article ''5.0'')"
    by (simp add: stored_world_def stored_article_def has_id_def)
  have sv: "stored_article ''5.0'' ''version'' = Some (Str ''5.0'')"
    by (simp add: stored_article_def)
  have k: "example_article ''1.0'' ''KB Article #'' = Some ''KB001''"
    "example_article ''1.0'' ''Version'' = Some ''1.0''"
    by (simp_all add: example_article_def)
  have n: "find (has_id ''KB001'') (container empty_world) = None"
    by (simp add: empty_world_def)
  note t = process_kb_article_version
  from t[where env = "flaky_env 0" and item_id = "''KB001''" and w = "stored_world ''5.0''"
      and existing = "stored_article ''5.0''" and article = "example_article ''1.0''"
      and v = "''1.0''" and p = p and w' = w'] f k r
  have a: "p ''version'' = Some (Str ''1.1'')"
    by (simp add: flaky_env_sel)
  from t[where env = "flaky_env 0" and item_id = "''KB001''" and w = empty_world
      and article = "example_article ''1.0''" and p = q and w' = w''] n k r'
  have b: "q ''version'' = Some (Str ''1.0'')"
    by simp
  from f sv k r a n r' b show ?thesis by blast
qed

text \<open>
  Claim C9. The record \<^verbatim>\<open>process_kb_article\<close> returns has the ten keys of the
  dictionary of line 65 and no other, and it is this record that the upsert writes: the
  container holds it under the id of the article, in place of the document that was there.
  A field of the raw article or of the previous document outside the ten is not in it.
  A call that fails writes nothing: the container is as it was.
\<close>

theorem process_kb_article_keys:
  "(process_kb_article env article w = (Inr p, w') \<longrightarrow>
      dom p = {''id'', ''type'', ''version'', ''category'', ''title'', ''introduction'',
               ''instructions'', ''keywords'', ''updated'', ''embedding''} \<and>
      (\<exists>item_id. article ''KB Article #'' = Some item_id \<and> p ''id'' = Some (Str item_id) \<and>
         find (has_id item_id) (container w') = Some p) \<and>
      last (db_calls w') = UpsertItem p) \<and>
   (process_kb_article env article w = (Inl e, w_end) \<longrightarrow> container w_end = container w)"
proof (intro conjI impI)
  assume a: "process_kb_article env article w = (Inr p, w')"
  from process_kb_article_Inr[OF a] obtain item_id where
    i: "article ''KB Article #'' = Some item_id" and h: "has_id item_id p"
    and d: "dom p = {''id'', ''type'', ''version'', ''category'', ''title'', ''introduction'',
              ''instructions'', ''keywords'', ''updated'', ''embedding''}"
    and c: "container w' = replace_item item_id p (container w)"
    and l: "db_calls w' = db_calls w @ [ReadItem item_id, UpsertItem p]"
    by blast
  show "dom p = {''id'', ''type'', ''version'', ''category'', ''title'', ''introduction'',
               ''instructions'', ''keywords'', ''updated'', ''embedding''}"
    by (rule d)
  from h have "p ''id'' = Some (Str item_id)" by (simp add: has_id_def)
  moreover from c h have "find (has_id item_id) (container w') = Some p"
    by (simp add: find_replace_item_same)
  ultimately show "\<exists>item_id. article ''KB Article #'' = Some item_id \<and>
      p ''id'' = Some (Str item_id) \<and> find (has_id item_id) (container w') = Some p"
    using i by blast
  from l show "last (db_calls w') = UpsertItem p" by simp
next
  assume "process_kb_article env article w = (Inl e, w_end)"
  then show "container w_end = container w" by (rule process_kb_article_Inl)
qed

theorem process_kb_article_keys_witness:
  "\<exists>p w' w_end.
     process_kb_article (flaky_env 0) ((example_article ''1.0'')(''Author'' \<mapsto> ''jdoe''))
       (stored_world ''5.0'') = (Inr p, w') \<and>
     stored_article ''5.0'' ''_etag'' = Some (Str ''00000000-0000'') \<and>
     p ''_etag'' = None \<and> p ''Author'' = None \<and> p ''id'' = Some (Str ''KB001'') \<and>
     find (has_id ''KB001'') (container w') = Some p \<and>
     process_kb_article (flaky_env 0) ((example_article ''1.0'')(''Keywords'' := None))
       (stored_world ''5.0'') = (Inl (KeyError ''Keywords''), w_end) \<and>
     container w_end = [stored_article ''5.0'']"
proof -
  obtain p w' where r:
    "process_kb_article (flaky_env 0) ((example_article ''1.0'')(''Author'' \<mapsto> ''jdoe''))
       (stored_world ''5.0'') = (Inr p, w')"
    using example_article_succeeds by blast
  obtain w_end where f:
    "process_kb_article (flaky_env 0) ((example_article ''1.0'')(''Keywords'' := None))
       (stored_world ''5.0'') = (Inl (KeyError ''Keywords''), w_end)"
    using example_article_fails by blast
  have k: "((example_article ''1.0'')(''Author'' \<mapsto> ''jdoe'')) ''KB Article #'' = Some ''KB001''"
    by (simp add: example_article_def)
  note t = process_kb_article_keys
  from t[where env = "flaky_env 0" and w = "stored_world ''5.0''" and p = p and w' = w'
      and article = "(example_article ''1.0'')(''Author'' \<mapsto> ''jdoe'')"] r k
  have d: "dom p = {''id'', ''type'', ''version'', ''category'', ''title'', ''introduction'',
            ''instructions'', ''keywords'', ''updated'', ''embedding''}"
    and i: "p ''id'' = Some (Str ''KB001'')"
    and fd: "find (has_id ''KB001'') (container w') = Some p"
    by auto
  from t[where env = "flaky_env 0" and w = "stored_world ''5.0''" and w_end = w_end
      and article = "(example_article ''1.0'')(''Keywords'' := None)"
      and e = "KeyError ''Keywords''"] f
  have c: "container w_end = [stored_article ''5.0'']"
    by (simp add: stored_world_def)
  have "''_etag'' \<notin> dom p" "''Author'' \<notin> dom p" unfolding d by simp_all
  then have n: "p ''_etag'' = None" "p ''Author'' = None" by blast+
  have e: "stored_article ''5.0'' ''_etag'' = Some (Str ''00000000-0000'')"
    by (simp add: stored_article_def)
  from r e n i fd f c show ?thesis by blast
qed

section \<open>Properties of the ingestion of a data frame\<close>






text \<open>
  Claim C6. The type of the items is tested inside the loop, once per row. With a type
  that is neither \<^verbatim>\<open>kb_article\<close> nor \<^verbatim>\<open>ticket\<close> a data frame with a row fails
  at its first row before anything is done, but the empty data frame returns the empty
  list and no error.
\<close>

theorem process_dataframe_invalid_kind:
  "process_dataframe env [] item_type w = (Inr [], w) \<and>
   (item_type \<noteq> ''kb_article'' \<and> item_type \<noteq> ''ticket''
      \<longrightarrow> process_dataframe env (item # rows) item_type w
            = (Inl (ValueError (''Invalid item type: '' @ item_type)), w))"
  by (simp add: process_dataframe_def process_item_def ret_def raise_def io_bind_def)

theorem process_dataframe_invalid_kind_witness:
  "''invoice'' \<noteq> ''kb_article'' \<and> ''invoice'' \<noteq> ''ticket'' \<and>
   process_dataframe (flaky_env 0) [] ''invoice'' empty_world = (Inr [], empty_world) \<and>
   process_dataframe (flaky_env 0) [example_ticket ''T001''] ''invoice'' empty_world
     = (Inl (ValueError ''Invalid item type: invoice''), empty_world)"
  using process_dataframe_invalid_kind
    [of "flaky_env 0" "''invoice''" empty_world "example_ticket ''T001''" "[]"]
  by simp

section \<open>Properties of the statistics\<close>

lemma count_key_count:
  "count_key table k = Inr table' \<Longrightarrow>
   count_of table' key = count_of table key + (if k = key then 1 else 0)"
  by (auto simp: count_key_def count_of_def split: pyval.splits option.splits)

lemma count_articles_table:
  "count_articles kb_articles st = Inr st' \<Longrightarrow>
   count_of (kb_article_categories st') key =
     count_of (kb_article_categories st) key +
     length (filter (\<lambda>a. dict_get a ''category'' (Str ''Unknown'') = key) kb_articles) \<and>
   ticket_quality_distribution st' = ticket_quality_distribution st \<and>
   user_proficiency_distribution st' = user_proficiency_distribution st"
proof (induction kb_articles arbitrary: st)
  case Nil
  then show ?case by simp
next
  case (Cons article kb_articles)
  from Cons.prems obtain t where
    t: "count_key (kb_article_categories st) (dict_get article ''category'' (Str ''Unknown'')) = Inr t"
    and r: "count_articles kb_articles (st\<lparr>kb_article_categories := t\<rparr>) = Inr st'"
    by (auto simp: Let_def split: sum.splits)
  from Cons.IH[OF r] count_key_count[OF t, of key] show ?case by simp
qed

lemma count_tickets_table:
  "count_tickets tickets st = Inr st' \<Longrightarrow>
   count_of (ticket_quality_distribution st') key =
     count_of (ticket_quality_distribution st) key +
     length (filter (\<lambda>t. dict_get t ''ticket_quality'' (Str ''Unknown'') = key) tickets) \<and>
   count_of (user_proficiency_distribution st') key =
     count_of (user_proficiency_distribution st) key +
     length (filter (\<lambda>t. dict_get t ''user_proficiency'' (Str ''Unknown'') = key) tickets) \<and>
   kb_article_categories st' = kb_article_categories st"
proof (induction tickets arbitrary: st)
  case Nil
  then show ?case by simp
next
  case (Cons ticket tickets)
  from Cons.prems obtain tq tp where
    tq: "count_key (ticket_quality_distribution st)
           (dict_get ticket ''ticket_quality'' (Str ''Unknown'')) = Inr tq"
    and tp: "count_key (user_proficiency_distribution st)
           (dict_get ticket ''user_proficiency'' (Str ''Unknown'')) = Inr tp"
    and r: "count_tickets tickets
              (st\<lparr>ticket_quality_distribution := tq, user_proficiency_distribution := tp\<rparr>)
            = Inr st'"
    by (auto simp: Let_def split: sum.splits)
  from Cons.IH[OF r] count_key_count[OF tq, of key] count_key_count[OF tp, of key]
  show ?case by simp
qed

lemma dict_get_unknown:
  "dict_get d k (Str ''Unknown'') = Str ''Unknown'' \<longleftrightarrow>
     d k = None \<or> d k = Some (Str ''Unknown'')"
  by (auto simp: dict_get_def split: option.splits)

text \<open>
  Claim C8. In the result of \<^verbatim>\<open>get_item_statistics\<close> the count under the key
  \<^verbatim>\<open>Unknown\<close> of the table of categories is the number of stored articles that have
  no \<^verbatim>\<open>category\<close> or have the category \<^verbatim>\<open>Unknown\<close> itself; the same holds for the
  tickets and the tables of \<^verbatim>\<open>ticket_quality\<close> and \<^verbatim>\<open>user_proficiency\<close>.
\<close>

theorem get_item_statistics_unknown:
  assumes "get_item_statistics env w = (Inr st, w')"
  shows "count_of (kb_article_categories st) (Str ''Unknown'') =
       length (filter (\<lambda>a. a ''category'' = None \<or> a ''category'' = Some (Str ''Unknown''))
                 (filter (\<lambda>d. d ''type'' = Some (Str ''kb_article'')) (container w))) \<and>
     count_of (ticket_quality_distribution st) (Str ''Unknown'') =
       length (filter (\<lambda>t. t ''ticket_quality'' = None \<or>
                            t ''ticket_quality'' = Some (Str ''Unknown''))
                 (filter (\<lambda>d. d ''type'' = Some (Str ''ticket'')) (container w))) \<and>
     count_of (user_proficiency_distribution st) (Str ''Unknown'') =
       length (filter (\<lambda>t. t ''user_proficiency'' = None \<or>
                            t ''user_proficiency'' = Some (Str ''Unknown''))
                 (filter (\<lambda>d. d ''type'' = Some (Str ''ticket'')) (container w)))"
proof -
  let ?kb = "filter (\<lambda>d. d ''type'' = Some (Str ''kb_article'')) (container w)"
  let ?tk = "filter (\<lambda>d. d ''type'' = Some (Str ''ticket'')) (container w)"
  let ?st0 = "\<lparr>total_kb_articles = length ?kb, total_tickets = length ?tk,
      kb_article_categories = Map.empty, ticket_quality_distribution = Map.empty,
      user_proficiency_distribution = Map.empty\<rparr>"
  from assms obtain kb w1 tk w2 st1 where
    q1: "get_items_by_type env ''kb_article'' w = (Inr kb, w1)" and
    q2: "get_items_by_type env ''ticket'' w1 = (Inr tk, w2)" and
    a: "count_articles kb \<lparr>total_kb_articles = length kb, total_tickets = length tk,
      kb_article_categories = Map.empty, ticket_quality_distribution = Map.empty,
      user_proficiency_distribution = Map.empty\<rparr> = Inr st1" and
    t: "count_tickets tk st1 = Inr st"
    unfolding get_item_statistics_def Let_def
    by (auto simp: io_bind_Inr lift_Inr)
  from get_items_by_type_Inr[OF q1] have kb: "kb = ?kb" and c1: "container w1 = container w"
    by simp_all
  from get_items_by_type_Inr[OF q2] c1 have tk: "tk = ?tk" by simp
  note A = count_articles_table[OF a, of "Str ''Unknown''"]
  note T = count_tickets_table[OF t, of "Str ''Unknown''"]
  from A T show ?thesis
    unfolding kb tk by (simp add: count_of_def dict_get_unknown)
qed

lemma stats_world_succeeds: "\<exists>st w'. get_item_statistics (flaky_env 0) stats_world = (Inr st, w')"
  by (simp add: get_item_statistics_def get_items_by_type_def io_bind_def db_request_def
      flaky_env_sel lift_def stats_world_def stored_article_def dict_get_def count_key_def
      Let_def)

theorem get_item_statistics_unknown_witness:
  "\<exists>st w'. get_item_statistics (flaky_env 0) stats_world = (Inr st, w') \<and>
     kb_article_categories st (Str ''Unknown'') = Some 1 \<and>
     ticket_quality_distribution st (Str ''Unknown'') = Some 1 \<and>
     user_proficiency_distribution st (Str ''Unknown'') = Some 1"
proof -
  obtain st w' where r: "get_item_statistics (flaky_env 0) stats_world = (Inr st, w')"
    using stats_world_succeeds by blast
  from get_item_statistics_unknown[OF r]
  have "count_of (kb_article_categories st) (Str ''Unknown'') = 1 \<and>
     count_of (ticket_quality_distribution st) (Str ''Unknown'') = 1 \<and>
     count_of (user_proficiency_distribution st) (Str ''Unknown'') = 1"
    by (simp add: stats_world_def stored_article_def)
  then have "kb_article_categories st (Str ''Unknown'') = Some 1 \<and>
     ticket_quality_distribution st (Str ''Unknown'') = Some 1 \<and>
     user_proficiency_distribution st (Str ''Unknown'') = Some 1"
    by (auto simp: count_of_def split: option.splits)
  with r show ?thesis by blast
qed

end
